theory Spec2Isabelle
  imports Main
begin

section \<open>Strings and JavaScript values\<close>

text \<open>
  File names and file contents are JavaScript strings, modelled as \<^typ>\<open>string\<close>.
  A value that may be \<^verbatim>\<open>undefined\<close> is an \<^typ>\<open>'a option\<close>, with \<^term>\<open>None\<close> for
  \<^verbatim>\<open>undefined\<close>.
\<close>

text \<open>\<^verbatim>\<open>String.prototype.endsWith\<close>: the last characters of the string are the suffix.\<close>

definition endsWith :: "string \<Rightarrow> string \<Rightarrow> bool" where
  "endsWith name suf =
     (length suf \<le> length name \<and> drop (length name - length suf) name = suf)"

text \<open>\<^verbatim>\<open>String.prototype.startsWith\<close>.\<close>

definition startsWith :: "string \<Rightarrow> string \<Rightarrow> bool" where
  "startsWith name pre = (take (length pre) name = pre)"

text \<open>The truth value JavaScript gives a string that may be undefined: the empty string
  and \<^verbatim>\<open>undefined\<close> are falsy.\<close>

fun truthy_string :: "string option \<Rightarrow> bool" where
  "truthy_string None = False"
| "truthy_string (Some s) = (s \<noteq> [])"

text \<open>The truth value of an optional boolean flag: \<^verbatim>\<open>undefined\<close> is falsy.\<close>

fun truthy :: "bool option \<Rightarrow> bool" where
  "truthy None = False"
| "truthy (Some b) = b"

section \<open>The map of emitted files\<close>

text \<open>
  \<^verbatim>\<open>emittedFiles\<close> is a JavaScript \<^verbatim>\<open>Map<string, string>\<close>. Its keys are enumerated in
  insertion order and \<^verbatim>\<open>set\<close> on a key already present keeps the position of the key,
  so the map is a list of pairs, the oldest key first.
\<close>

type_synonym emitted_files = "(string \<times> string) list"

fun Map_set :: "string \<Rightarrow> string \<Rightarrow> emitted_files \<Rightarrow> emitted_files" where
  "Map_set k v [] = [(k, v)]"
| "Map_set k v ((k', v') # m) =
     (if k' = k then (k, v) # m else (k', v') # Map_set k v m)"

definition Map_has :: "emitted_files \<Rightarrow> string \<Rightarrow> bool" where
  "Map_has m k = (k \<in> set (map fst m))"

definition Map_get :: "emitted_files \<Rightarrow> string \<Rightarrow> string option" where
  "Map_get m k = map_of m k"

definition Map_keys :: "emitted_files \<Rightarrow> string list" where
  "Map_keys m = map fst m"

section \<open>Output files (outputFile.ts)\<close>

text \<open>\<^verbatim>\<open>isMapOutputFile\<close>: the name ends with \<^verbatim>\<open>.map\<close>.\<close>

definition isMapOutputFile :: "string \<Rightarrow> bool" where
  "isMapOutputFile name = endsWith name ''.map''"

text \<open>\<^verbatim>\<open>isTypeScriptMapOutputFile\<close>: the name ends with \<^verbatim>\<open>ts.map\<close>.\<close>

definition isTypeScriptMapOutputFile :: "string \<Rightarrow> bool" where
  "isTypeScriptMapOutputFile name = endsWith name ''ts.map''"

text \<open>\<^verbatim>\<open>isDeclarationOutputFile\<close>: the regular expression \<^verbatim>\<open>/\.d\.[cm]?ts$/\<close> matches, that
  is, the name ends with \<^verbatim>\<open>.d.ts\<close>, \<^verbatim>\<open>.d.cts\<close> or \<^verbatim>\<open>.d.mts\<close>.\<close>

definition isDeclarationOutputFile :: "string \<Rightarrow> bool" where
  "isDeclarationOutputFile name =
     (endsWith name ''.d.ts'' \<or> endsWith name ''.d.cts'' \<or> endsWith name ''.d.mts'')"

text \<open>\<^verbatim>\<open>isCodeOutputFile\<close>: neither a map nor a declaration.\<close>

definition isCodeOutputFile :: "string \<Rightarrow> bool" where
  "isCodeOutputFile name = (\<not> isMapOutputFile name \<and> \<not> isDeclarationOutputFile name)"

text \<open>
  \<^verbatim>\<open>getEmittedFile\<close>. The class \<^verbatim>\<open>TSCache\<close> is not among the sources: its method
  \<^verbatim>\<open>getCached\<close> is the parameter \<open>getCached\<close>, which answers \<^term>\<open>None\<close> where the method
  returns \<^verbatim>\<open>undefined\<close>. The test \<^verbatim>\<open>if (fileName)\<close> fails for \<^verbatim>\<open>undefined\<close> and for the
  empty string.
\<close>

definition getEmittedFile ::
  "string option \<Rightarrow> emitted_files \<Rightarrow> (string \<Rightarrow> string option) \<Rightarrow> string option" where
  "getEmittedFile fileName emittedFiles getCached =
     (case fileName of
        None \<Rightarrow> None
      | Some f \<Rightarrow>
          if f \<noteq> [] then
            (if Map_has emittedFiles f then Map_get emittedFiles f else getCached f)
          else None)"

record TypescriptSourceDescription =
  code :: "string option"
  map' :: "string option"
  declarations :: "string list"

text \<open>The two local constants of \<^verbatim>\<open>findTypescriptOutput\<close>: the first candidate that is
  code, and the first candidate that is a map (\<^verbatim>\<open>Array.prototype.find\<close>).\<close>

definition codeFile :: "string list \<Rightarrow> string option" where
  "codeFile emittedFileNames = List.find isCodeOutputFile emittedFileNames"

definition mapFile :: "string list \<Rightarrow> string option" where
  "mapFile emittedFileNames = List.find isMapOutputFile emittedFileNames"

text \<open>
  \<^verbatim>\<open>findTypescriptOutput\<close>. The candidate names come from the compiler's
  \<^verbatim>\<open>ts.getOutputFileNames\<close>, which is outside the sources: the function takes the list
  \<open>emittedFileNames\<close> that the call returned. In the filter, \<^verbatim>\<open>name !== codeFile\<close> holds
  for every name when \<^verbatim>\<open>codeFile\<close> is undefined.
\<close>

definition findTypescriptOutput ::
  "string list \<Rightarrow> emitted_files \<Rightarrow> (string \<Rightarrow> string option) \<Rightarrow> TypescriptSourceDescription" where
  "findTypescriptOutput emittedFileNames emittedFiles getCached =
     \<lparr> code = getEmittedFile (codeFile emittedFileNames) emittedFiles getCached,
       map' = getEmittedFile (mapFile emittedFileNames) emittedFiles getCached,
       declarations =
         filter (\<lambda>name. Some name \<noteq> codeFile emittedFileNames \<and> Some name \<noteq> mapFile emittedFileNames)
           emittedFileNames \<rparr>"

text \<open>\<^verbatim>\<open>normalizePath\<close>: \<^verbatim>\<open>fileName.split(path.win32.sep).join(path.posix.sep)\<close>. The
  separators are single characters, the backslash and the slash.\<close>

fun split :: "char \<Rightarrow> string \<Rightarrow> string list" where
  "split sep [] = [[]]"
| "split sep (c # cs) =
     (if c = sep then [] # split sep cs
      else (case split sep cs of [] \<Rightarrow> [[c]] | w # ws \<Rightarrow> (c # w) # ws))"

fun join :: "char \<Rightarrow> string list \<Rightarrow> string" where
  "join sep [] = []"
| "join sep [w] = w"
| "join sep (w # v # ws) = w @ sep # join sep (v # ws)"

definition normalizePath :: "string \<Rightarrow> string" where
  "normalizePath fileName = join (CHR ''/'') (split (CHR 0x5C) fileName)"

section \<open>Options and messages\<close>

text \<open>
  The compiler options the plugin reads. A flag is a boolean that may be undefined. The
  string-valued properties (\<^verbatim>\<open>out\<close>, \<^verbatim>\<open>outFile\<close>, \<^verbatim>\<open>outDir\<close>, \<^verbatim>\<open>declarationDir\<close>, ...) are read
  by name, also through a computed name (\<^verbatim>\<open>compilerOptions[dirProperty]\<close>), so they are kept
  as a list of properties.
\<close>

record CompilerOptions =
  sourceMap :: "bool option"
  inlineSources :: "bool option"
  inlineSourceMap :: "bool option"
  composite :: "bool option"
  incremental :: "bool option"
  declaration' :: "bool option"
  declarationMap :: "bool option"
  stringProps :: "(string \<times> string) list"

definition stringProp :: "CompilerOptions \<Rightarrow> string \<Rightarrow> string option" where
  "stringProp compilerOptions name = map_of (stringProps compilerOptions) name"

text \<open>The parsed configuration (\<^verbatim>\<open>parsedOptions\<close>): the result of \<^verbatim>\<open>parseTypescriptConfig\<close>,
  which is outside the sources.\<close>

record ParsedCommandLine =
  options :: CompilerOptions
  fileNames :: "string list"
  autoSetSourceMap :: bool
  configPath :: string

text \<open>What the plugin reads of esbuild's \<^verbatim>\<open>build.initialOptions\<close>. \<^verbatim>\<open>sourcemap\<close> is a boolean
  or one of a few strings.\<close>

datatype sourcemap_value = SourcemapBool bool | SourcemapString string

fun truthy_sourcemap :: "sourcemap_value option \<Rightarrow> bool" where
  "truthy_sourcemap None = False"
| "truthy_sourcemap (Some (SourcemapBool b)) = b"
| "truthy_sourcemap (Some (SourcemapString s)) = (s \<noteq> [])"

record BuildOptions =
  sourcemap :: "sourcemap_value option"
  outdir :: "string option"
  outfile :: "string option"

record Location =
  column :: nat
  line :: nat
  file' :: string

record PartialMessage =
  pluginName :: string
  text' :: string
  location :: "Location option"
  detail :: "string option"

definition message :: "string \<Rightarrow> PartialMessage" where
  "message t =
     \<lparr> pluginName = ''@libmedia/esbuild-plugin-typescript'', text' = t,
       location = None, detail = None \<rparr>"

section \<open>The plugin's state\<close>

text \<open>
  The plugin factory \<^verbatim>\<open>typescript\<close> creates the variables its hooks share: \<^verbatim>\<open>parsedOptions\<close>,
  \<^verbatim>\<open>emittedFiles\<close>, \<^verbatim>\<open>program\<close>, \<^verbatim>\<open>errors\<close> and \<^verbatim>\<open>warnings\<close>. The watch program, the helper
  \<^verbatim>\<open>WatchProgramHelper\<close> and the cache \<^verbatim>\<open>TSCache\<close> are outside the sources; the state
  records, in order, the calls the hooks make to them.
\<close>

datatype call =
  CreateWatchProgram ParsedCommandLine
| HelperWatch
| ProgramClose
| CacheCode string string

datatype Watch = Watch

record PluginState =
  parsedOptions :: ParsedCommandLine
  emittedFiles :: emitted_files
  program :: "Watch option"
  errors :: "PartialMessage list"
  warnings :: "PartialMessage list"
  calls :: "call list"

text \<open>\<^verbatim>\<open>context.error\<close> and \<^verbatim>\<open>context.warn\<close> push a message on \<^verbatim>\<open>errors\<close> and
  \<^verbatim>\<open>warnings\<close>.\<close>

definition context_error :: "PartialMessage \<Rightarrow> PluginState \<Rightarrow> PluginState" where
  "context_error m st = st\<lparr>errors := errors st @ [m]\<rparr>"

definition context_warn :: "PartialMessage \<Rightarrow> PluginState \<Rightarrow> PluginState" where
  "context_warn m st = st\<lparr>warnings := warnings st @ [m]\<rparr>"

text \<open>
  The factory, from the parsed configuration on. \<open>flt\<close> is the inclusion predicate that
  \<^verbatim>\<open>createFilter\<close> returns. A configuration with \<^verbatim>\<open>sourceMap\<close> set is rewritten to inline
  source maps, and the file names are restricted to the included ones.
\<close>

definition typescript :: "(string \<Rightarrow> bool) \<Rightarrow> ParsedCommandLine \<Rightarrow> PluginState" where
  "typescript flt parsed =
     (let opts = options parsed;
          opts' = (if truthy (sourceMap opts)
                   then opts\<lparr>sourceMap := Some False, inlineSources := Some True,
                              inlineSourceMap := Some True\<rparr>
                   else opts)
      in \<lparr> parsedOptions = parsed\<lparr>options := opts', fileNames := filter flt (fileNames parsed)\<rparr>,
           emittedFiles = [], program = None, errors = [], warnings = [], calls = [] \<rparr>)"

section \<open>Validation (options/validate.ts)\<close>

definition validateSourceMap ::
  "CompilerOptions \<Rightarrow> BuildOptions \<Rightarrow> bool \<Rightarrow> PluginState \<Rightarrow> PluginState" where
  "validateSourceMap compilerOptions outputOptions autoSet st =
     (if (truthy (sourceMap compilerOptions) \<or> truthy (inlineSourceMap compilerOptions))
          \<and> \<not> truthy_sourcemap (sourcemap outputOptions) \<and> \<not> autoSet
      then context_warn (message
        ''@libmedia/esbuild-plugin-typescript: esbuild 'sourcemap' option must be set to generate source maps.'') st
      else if \<not> (truthy (sourceMap compilerOptions) \<or> truthy (inlineSourceMap compilerOptions))
          \<and> truthy_sourcemap (sourcemap outputOptions)
      then context_warn (message
        ''@libmedia/esbuild-plugin-typescript: Typescript 'sourceMap' compiler option must be set to generate source maps.'') st
      else st)"

text \<open>
  \<^verbatim>\<open>validatePaths\<close>. The list \<^verbatim>\<open>DIRECTORY_PROPS\<close> and Node's \<^verbatim>\<open>path.relative\<close> and
  \<^verbatim>\<open>path.dirname\<close> are outside the sources and are parameters.
\<close>

definition outside_message :: "string \<Rightarrow> string \<Rightarrow> PartialMessage" where
  "outside_message dirProperty place =
     message (''@libmedia/esbuild-plugin-typescript: Path of Typescript compiler option ''
       @ [CHR 0x27] @ dirProperty @ [CHR 0x27] @ '' must be located inside '' @ place)"

definition validateDir ::
  "(string \<Rightarrow> string \<Rightarrow> string) \<Rightarrow> CompilerOptions \<Rightarrow> BuildOptions \<Rightarrow> string option \<Rightarrow>
   PluginState \<Rightarrow> string \<Rightarrow> PluginState" where
  "validateDir relative compilerOptions outputOptions outputDir st dirProperty =
     (if truthy_string (stringProp compilerOptions dirProperty) \<and> truthy_string outputDir then
        (if truthy_string (outdir outputOptions) then
           (if startsWith (relative (the outputDir) (the (stringProp compilerOptions dirProperty))) ''..''
            then context_error (outside_message dirProperty ''Rollup 'dir' option.'') st
            else st)
         else if dirProperty = ''outDir'' then
           (if startsWith (relative (the (stringProp compilerOptions dirProperty)) (the outputDir)) ''..''
            then context_error
              (outside_message dirProperty ''the same directory as the Rollup 'file' option.'') st
            else st)
         else
           (if startsWith (relative (the outputDir) (the (stringProp compilerOptions dirProperty))) ''..''
            then context_error
              (outside_message dirProperty ''the same directory as the Rollup 'file' option.'') st
            else st))
      else st)"

definition validatePaths ::
  "string list \<Rightarrow> (string \<Rightarrow> string \<Rightarrow> string) \<Rightarrow> (string \<Rightarrow> string) \<Rightarrow>
   CompilerOptions \<Rightarrow> BuildOptions \<Rightarrow> PluginState \<Rightarrow> PluginState" where
  "validatePaths DIRECTORY_PROPS relative dirname compilerOptions outputOptions st =
     (let st1 =
            (if truthy_string (stringProp compilerOptions ''out'') then
               context_error (message
                 ''@libmedia/esbuild-plugin-typescript: Deprecated Typescript compiler option 'out' is not supported. Use 'outDir' instead.'') st
             else if truthy_string (stringProp compilerOptions ''outFile'') then
               context_error (message
                 ''@libmedia/esbuild-plugin-typescript: Typescript compiler option 'outFile' is not supported. Use 'outDir' instead.'') st
             else st);
          outputDir =
            (if truthy_string (outfile outputOptions)
             then Some (dirname (the (outfile outputOptions)))
             else outdir outputOptions);
          st2 = foldl (validateDir relative compilerOptions outputOptions outputDir) st1 DIRECTORY_PROPS
      in if truthy (declaration' compilerOptions) \<or> truthy (declarationMap compilerOptions)
            \<or> truthy (composite compilerOptions)
         then (if list_all (\<lambda>dirProperty. \<not> truthy_string (stringProp compilerOptions dirProperty)) DIRECTORY_PROPS
               then context_error (message
                 (''@libmedia/esbuild-plugin-typescript: You are using one of Typescript's compiler options 'declaration', 'declarationMap' or 'composite'. ''
                  @ ''In this case 'outDir' or 'declarationDir' must be specified to generate declaration files.'')) st2
               else st2)
         else st2)"

section \<open>The hooks (index.ts)\<close>

text \<open>
  \<^verbatim>\<open>onStart\<close>. \<^verbatim>\<open>emitParsedOptionsErrors\<close> and \<^verbatim>\<open>preflight\<close> are outside the sources; they
  report through \<^verbatim>\<open>context\<close>, so each is a parameter that gives the errors and the
  warnings it pushes. \<^verbatim>\<open>createWatchProgram\<close> returns the watch program.
\<close>

definition push_messages ::
  "PartialMessage list \<times> PartialMessage list \<Rightarrow> PluginState \<Rightarrow> PluginState" where
  "push_messages ms st = st\<lparr>errors := errors st @ fst ms, warnings := warnings st @ snd ms\<rparr>"

definition start_program :: "PluginState \<Rightarrow> PluginState" where
  "start_program st =
     (case program st of
        None \<Rightarrow> st\<lparr>program := Some Watch,
                    calls := calls st @ [CreateWatchProgram (parsedOptions st)]\<rparr>
      | Some w \<Rightarrow> st\<lparr>calls := calls st @ [HelperWatch]\<rparr>)"

definition onStart ::
  "(ParsedCommandLine \<Rightarrow> PartialMessage list \<times> PartialMessage list) \<Rightarrow>
   (ParsedCommandLine \<Rightarrow> BuildOptions \<Rightarrow> PartialMessage list \<times> PartialMessage list) \<Rightarrow>
   string list \<Rightarrow> (string \<Rightarrow> string \<Rightarrow> string) \<Rightarrow> (string \<Rightarrow> string) \<Rightarrow>
   BuildOptions \<Rightarrow> PluginState \<Rightarrow> PluginState" where
  "onStart emitParsedOptionsErrors preflight DIRECTORY_PROPS relative dirname initialOptions st =
     (let st1 = push_messages (emitParsedOptionsErrors (parsedOptions st)) st;
          st2 = push_messages (preflight (parsedOptions st1) initialOptions) st1;
          st3 = start_program st2;
          st4 = validateSourceMap (options (parsedOptions st3)) initialOptions
                  (autoSetSourceMap (parsedOptions st3)) st3
      in validatePaths DIRECTORY_PROPS relative dirname (options (parsedOptions st4))
           initialOptions st4)"

text \<open>The hook \<^verbatim>\<open>writeFile\<close> that \<^verbatim>\<open>onStart\<close> hands to the watch program.\<close>

definition writeFile :: "string \<Rightarrow> string \<Rightarrow> PluginState \<Rightarrow> PluginState" where
  "writeFile fileName data st =
     (let st1 =
            (if truthy (composite (options (parsedOptions st)))
                \<or> truthy (incremental (options (parsedOptions st)))
             then st\<lparr>calls := calls st @ [CacheCode fileName data]\<rparr>
             else st)
      in st1\<lparr>emittedFiles := Map_set fileName data (emittedFiles st1)\<rparr>)"

text \<open>\<^verbatim>\<open>onDispose\<close>: \<^verbatim>\<open>program?.close()\<close>.\<close>

definition onDispose :: "PluginState \<Rightarrow> PluginState" where
  "onDispose st =
     (case program st of
        None \<Rightarrow> st
      | Some w \<Rightarrow> st\<lparr>calls := calls st @ [ProgramClose]\<rparr>)"

text \<open>
  \<^verbatim>\<open>onLoad\<close>, from the point where \<^verbatim>\<open>await watchProgramHelper.wait()\<close> has returned: \<open>st\<close> is the
  state at that moment, except for a path outside the filter, where the hook returns at
  once. The result is \<^term>\<open>None\<close> where the hook returns \<^verbatim>\<open>undefined\<close>.
  \<open>getOutputFileNames\<close> is the compiler's \<^verbatim>\<open>ts.getOutputFileNames\<close> and \<open>getCached\<close> is
  \<^verbatim>\<open>tsCache.getCached\<close>.
\<close>

record OnLoadResult =
  contents :: string
  result_errors :: "PartialMessage list"
  result_warnings :: "PartialMessage list"

definition onLoad ::
  "(string \<Rightarrow> bool) \<Rightarrow> (ParsedCommandLine \<Rightarrow> string \<Rightarrow> string list) \<Rightarrow>
   (string \<Rightarrow> string option) \<Rightarrow> string \<Rightarrow> PluginState \<Rightarrow> OnLoadResult option \<times> PluginState" where
  "onLoad flt getOutputFileNames getCached path st =
     (if \<not> flt path then (None, st)
      else
        let fileName = normalizePath path;
            parsed = parsedOptions st;
            parsed' = (if fileName \<in> set (fileNames parsed) then parsed
                       else parsed\<lparr>fileNames := fileNames parsed @ [fileName]\<rparr>);
            output = findTypescriptOutput (getOutputFileNames parsed' path) (emittedFiles st) getCached;
            result = (case code output of
                        Some c \<Rightarrow> Some \<lparr> contents = c, result_errors = errors st,
                                          result_warnings = warnings st \<rparr>
                      | None \<Rightarrow> None)
        in (result, st\<lparr>parsedOptions := parsed', errors := [], warnings := []\<rparr>))"

text \<open>
  \<^verbatim>\<open>onEnd\<close>: the emitted names it goes on to write, \<^verbatim>\<open>declarationAndTypeScriptMapFiles\<close>.
  \<^verbatim>\<open>fileName.replace(/\.d\.ts$/, '.ts')\<close> rewrites a final \<^verbatim>\<open>.d.ts\<close> and leaves any other
  name as it is.
\<close>

definition replace_d_ts :: "string \<Rightarrow> string" where
  "replace_d_ts fileName =
     (if endsWith fileName ''.d.ts'' then take (length fileName - 5) fileName @ ''.ts''
      else fileName)"

definition declarationAndTypeScriptMapFiles :: "(string \<Rightarrow> bool) \<Rightarrow> PluginState \<Rightarrow> string list" where
  "declarationAndTypeScriptMapFiles flt st =
     filter (\<lambda>fileName. (isDeclarationOutputFile fileName \<and> flt (replace_d_ts fileName))
                         \<or> isTypeScriptMapOutputFile fileName)
       (Map_keys (emittedFiles st))"

section \<open>Runs of the plugin\<close>

text \<open>
  The host calls the hooks in any order and the watch program calls \<^verbatim>\<open>writeFile\<close> and
  reports diagnostics through \<^verbatim>\<open>context\<close>. A run is a list of such events, applied from
  the state the factory has built. \<^verbatim>\<open>onEnd\<close> leaves the shared variables as they are,
  and the result of a load is dropped here.
\<close>

datatype event =
  Start BuildOptions
| Load string
| WriteFile string string
| Report PartialMessage
| Warn PartialMessage
| Dispose
| End

fun step ::
  "(ParsedCommandLine \<Rightarrow> PartialMessage list \<times> PartialMessage list) \<Rightarrow>
   (ParsedCommandLine \<Rightarrow> BuildOptions \<Rightarrow> PartialMessage list \<times> PartialMessage list) \<Rightarrow>
   string list \<Rightarrow> (string \<Rightarrow> string \<Rightarrow> string) \<Rightarrow> (string \<Rightarrow> string) \<Rightarrow>
   (string \<Rightarrow> bool) \<Rightarrow> (ParsedCommandLine \<Rightarrow> string \<Rightarrow> string list) \<Rightarrow>
   (string \<Rightarrow> string option) \<Rightarrow> PluginState \<Rightarrow> event \<Rightarrow> PluginState" where
  "step emitParsedOptionsErrors preflight DIRECTORY_PROPS relative dirname flt getOutputFileNames getCached st
     (Start initialOptions) =
     onStart emitParsedOptionsErrors preflight DIRECTORY_PROPS relative dirname initialOptions st"
| "step emitParsedOptionsErrors preflight DIRECTORY_PROPS relative dirname flt getOutputFileNames getCached st
     (Load path) = snd (onLoad flt getOutputFileNames getCached path st)"
| "step emitParsedOptionsErrors preflight DIRECTORY_PROPS relative dirname flt getOutputFileNames getCached st
     (WriteFile fileName data) = writeFile fileName data st"
| "step emitParsedOptionsErrors preflight DIRECTORY_PROPS relative dirname flt getOutputFileNames getCached st
     (Report m) = context_error m st"
| "step emitParsedOptionsErrors preflight DIRECTORY_PROPS relative dirname flt getOutputFileNames getCached st
     (Warn m) = context_warn m st"
| "step emitParsedOptionsErrors preflight DIRECTORY_PROPS relative dirname flt getOutputFileNames getCached st
     Dispose = onDispose st"
| "step emitParsedOptionsErrors preflight DIRECTORY_PROPS relative dirname flt getOutputFileNames getCached st
     End = st"

definition run ::
  "(ParsedCommandLine \<Rightarrow> PartialMessage list \<times> PartialMessage list) \<Rightarrow>
   (ParsedCommandLine \<Rightarrow> BuildOptions \<Rightarrow> PartialMessage list \<times> PartialMessage list) \<Rightarrow>
   string list \<Rightarrow> (string \<Rightarrow> string \<Rightarrow> string) \<Rightarrow> (string \<Rightarrow> string) \<Rightarrow>
   (string \<Rightarrow> bool) \<Rightarrow> (ParsedCommandLine \<Rightarrow> string \<Rightarrow> string list) \<Rightarrow>
   (string \<Rightarrow> string option) \<Rightarrow> ParsedCommandLine \<Rightarrow> event list \<Rightarrow> PluginState" where
  "run emitParsedOptionsErrors preflight DIRECTORY_PROPS relative dirname flt getOutputFileNames getCached
     parsed events =
     foldl (step emitParsedOptionsErrors preflight DIRECTORY_PROPS relative dirname flt
              getOutputFileNames getCached)
       (typescript flt parsed) events"

text \<open>The watch programs created so far, each with the configuration it was created with.\<close>

fun created :: "call list \<Rightarrow> ParsedCommandLine list" where
  "created [] = []"
| "created (CreateWatchProgram parsed # cs) = parsed # created cs"
| "created (c # cs) = created cs"

text \<open>
  What stays the same along a run: the compiler options, and the configuration of the one
  watch program, once it exists.
\<close>

definition session_inv :: "CompilerOptions \<Rightarrow> PluginState \<Rightarrow> bool" where
  "session_inv opts st =
     (options (parsedOptions st) = opts
      \<and> map options (created (calls st)) = (case program st of None \<Rightarrow> [] | Some w \<Rightarrow> [opts]))"

section \<open>The watch coordinator\<close>

text \<open>
  Modelled from the spec: the WatchCoordinator of sections 3, 4.3 and 5, which the hooks reach
  through \<^verbatim>\<open>watchProgramHelper\<close>; the class \<^verbatim>\<open>WatchProgramHelper\<close> (\<^verbatim>\<open>./watchProgram\<close>) is not among
  the sources. The coordinator is Idle or Compiling.
\<close>

datatype CoordinatorState = Idle | Compiling

text \<open>Modelled from the spec: the compiler's status events as \<^verbatim>\<open>handleStatus\<close> reads them, a
  file-system change, the settled status "watching for changes", and any other status.\<close>

datatype status = FileChangeDetected | WatchingForChanges | Unrecognized

text \<open>Modelled from the spec: a pending wait request in the coordinator's queue, with the
  pass during which it began to wait.\<close>

record Waiter =
  waiter_path :: string
  waiter_pass :: nat

text \<open>
  What is recorded when a load runs the part of \<^verbatim>\<open>onLoad\<close> after the wait: the state and
  the pass at which the request began, the state and the pass at which it resolves, the
  pass that wrote the code it reads from \<^verbatim>\<open>emittedFiles\<close> (none when the code comes from the
  cache or is missing), and the result.
\<close>

record Resolution =
  res_path :: string
  res_began_state :: CoordinatorState
  res_began_pass :: nat
  res_state :: CoordinatorState
  res_pass :: nat
  res_code_pass :: "nat option"
  res_result :: "OnLoadResult option"

text \<open>
  Modelled from the spec: the plugin's state together with the coordinator, its state, its
  queue of pending requests, oldest first, and the number of compile passes begun. A pass
  is a period of Compiling, from the transition that leaves Idle to the next settled
  status. \<open>written\<close> remembers, for each emitted name, the pass of its latest write.
\<close>

record System =
  plugin :: PluginState
  cstate :: CoordinatorState
  queue :: "Waiter list"
  pass :: nat
  written :: "(string \<times> nat) list"
  resolved :: "Resolution list"

text \<open>Modelled from the spec: \<^verbatim>\<open>markCompiling\<close>, the transition to Compiling; leaving Idle begins
  a pass.\<close>

definition markCompiling :: "System \<Rightarrow> System" where
  "markCompiling sys =
     (case cstate sys of
        Idle \<Rightarrow> sys\<lparr>cstate := Compiling, pass := Suc (pass sys)\<rparr>
      | Compiling \<Rightarrow> sys)"

text \<open>The rest of \<^verbatim>\<open>onLoad\<close> once \<^verbatim>\<open>wait\<close> has returned, run on the plugin's state of that
  moment, and the record of it.\<close>

definition resume ::
  "(string \<Rightarrow> bool) \<Rightarrow> (ParsedCommandLine \<Rightarrow> string \<Rightarrow> string list) \<Rightarrow>
   (string \<Rightarrow> string option) \<Rightarrow> string \<Rightarrow> CoordinatorState \<Rightarrow> nat \<Rightarrow> System \<Rightarrow> System" where
  "resume flt getOutputFileNames getCached path began_state began_pass sys =
     (let r = onLoad flt getOutputFileNames getCached path (plugin sys);
          name = codeFile (getOutputFileNames (parsedOptions (snd r)) path)
      in sys\<lparr>plugin := snd r,
              resolved := resolved sys @
                [\<lparr> res_path = path, res_began_state = began_state, res_began_pass = began_pass,
                    res_state = cstate sys, res_pass = pass sys,
                    res_code_pass =
                      (case name of
                         None \<Rightarrow> None
                       | Some n \<Rightarrow> if Map_has (emittedFiles (plugin sys)) n
                                   then map_of (written sys) n else None),
                    res_result = fst r \<rparr>]\<rparr>)"

text \<open>Modelled from the spec: \<^verbatim>\<open>wait\<close> returns at once when the coordinator is Idle and
  otherwise suspends the caller at the end of the queue.\<close>

definition wait ::
  "(string \<Rightarrow> bool) \<Rightarrow> (ParsedCommandLine \<Rightarrow> string \<Rightarrow> string list) \<Rightarrow>
   (string \<Rightarrow> string option) \<Rightarrow> string \<Rightarrow> System \<Rightarrow> System" where
  "wait flt getOutputFileNames getCached path sys =
     (case cstate sys of
        Idle \<Rightarrow> resume flt getOutputFileNames getCached path Idle (pass sys) sys
      | Compiling \<Rightarrow> sys\<lparr>queue := queue sys @ [\<lparr> waiter_path = path, waiter_pass = pass sys \<rparr>]\<rparr>)"

text \<open>A call of \<^verbatim>\<open>onLoad\<close>: a path outside the filter returns before the wait (index.ts, the
  first line of the hook), any other path waits.\<close>

definition load ::
  "(string \<Rightarrow> bool) \<Rightarrow> (ParsedCommandLine \<Rightarrow> string \<Rightarrow> string list) \<Rightarrow>
   (string \<Rightarrow> string option) \<Rightarrow> string \<Rightarrow> System \<Rightarrow> System" where
  "load flt getOutputFileNames getCached path sys =
     (if \<not> flt path
      then resume flt getOutputFileNames getCached path (cstate sys) (pass sys) sys
      else wait flt getOutputFileNames getCached path sys)"

text \<open>Modelled from the spec: \<^verbatim>\<open>handleStatus\<close>. A file-system change leads to Compiling; the
  settled status leads to Idle and releases the waiting callers in the order in which they
  began to wait; any other status is ignored.\<close>

definition handleStatus ::
  "(string \<Rightarrow> bool) \<Rightarrow> (ParsedCommandLine \<Rightarrow> string \<Rightarrow> string list) \<Rightarrow>
   (string \<Rightarrow> string option) \<Rightarrow> status \<Rightarrow> System \<Rightarrow> System" where
  "handleStatus flt getOutputFileNames getCached s sys =
     (case s of
        FileChangeDetected \<Rightarrow> markCompiling sys
      | WatchingForChanges \<Rightarrow>
          (foldl (\<lambda>sys' w. resume flt getOutputFileNames getCached (waiter_path w) Compiling
                              (waiter_pass w) sys')
             (sys\<lparr>cstate := Idle\<rparr>) (queue sys))\<lparr>queue := []\<rparr>
      | Unrecognized \<Rightarrow> sys)"

text \<open>
  The events of the whole: a hook or a callback of the plugin, or a status of the
  compiler. Modelled from the spec: a start of a build creates or wakes the compiler and
  the coordinator enters Compiling.
\<close>

datatype sys_event = Hook event | Status status

fun sys_step ::
  "(ParsedCommandLine \<Rightarrow> PartialMessage list \<times> PartialMessage list) \<Rightarrow>
   (ParsedCommandLine \<Rightarrow> BuildOptions \<Rightarrow> PartialMessage list \<times> PartialMessage list) \<Rightarrow>
   string list \<Rightarrow> (string \<Rightarrow> string \<Rightarrow> string) \<Rightarrow> (string \<Rightarrow> string) \<Rightarrow>
   (string \<Rightarrow> bool) \<Rightarrow> (ParsedCommandLine \<Rightarrow> string \<Rightarrow> string list) \<Rightarrow>
   (string \<Rightarrow> string option) \<Rightarrow> System \<Rightarrow> sys_event \<Rightarrow> System" where
  "sys_step emitParsedOptionsErrors preflight DIRECTORY_PROPS relative dirname flt getOutputFileNames getCached sys
     (Status s) = handleStatus flt getOutputFileNames getCached s sys"
| "sys_step emitParsedOptionsErrors preflight DIRECTORY_PROPS relative dirname flt getOutputFileNames getCached sys
     (Hook (Load path)) = load flt getOutputFileNames getCached path sys"
| "sys_step emitParsedOptionsErrors preflight DIRECTORY_PROPS relative dirname flt getOutputFileNames getCached sys
     (Hook (Start initialOptions)) =
     markCompiling (sys\<lparr>plugin :=
       onStart emitParsedOptionsErrors preflight DIRECTORY_PROPS relative dirname initialOptions
         (plugin sys)\<rparr>)"
| "sys_step emitParsedOptionsErrors preflight DIRECTORY_PROPS relative dirname flt getOutputFileNames getCached sys
     (Hook (WriteFile fileName data)) =
     sys\<lparr>plugin := writeFile fileName data (plugin sys),
          written := (fileName, pass sys) # written sys\<rparr>"
| "sys_step emitParsedOptionsErrors preflight DIRECTORY_PROPS relative dirname flt getOutputFileNames getCached sys
     (Hook e) =
     sys\<lparr>plugin := step emitParsedOptionsErrors preflight DIRECTORY_PROPS relative dirname flt
                       getOutputFileNames getCached (plugin sys) e\<rparr>"

definition sys_run ::
  "(ParsedCommandLine \<Rightarrow> PartialMessage list \<times> PartialMessage list) \<Rightarrow>
   (ParsedCommandLine \<Rightarrow> BuildOptions \<Rightarrow> PartialMessage list \<times> PartialMessage list) \<Rightarrow>
   string list \<Rightarrow> (string \<Rightarrow> string \<Rightarrow> string) \<Rightarrow> (string \<Rightarrow> string) \<Rightarrow>
   (string \<Rightarrow> bool) \<Rightarrow> (ParsedCommandLine \<Rightarrow> string \<Rightarrow> string list) \<Rightarrow>
   (string \<Rightarrow> string option) \<Rightarrow> ParsedCommandLine \<Rightarrow> sys_event list \<Rightarrow> System" where
  "sys_run emitParsedOptionsErrors preflight DIRECTORY_PROPS relative dirname flt getOutputFileNames getCached
     parsed events =
     foldl (sys_step emitParsedOptionsErrors preflight DIRECTORY_PROPS relative dirname flt
              getOutputFileNames getCached)
       \<lparr> plugin = typescript flt parsed, cstate = Idle, queue = [], pass = 0, written = [],
         resolved = [] \<rparr> events"

text \<open>A resolution is in its pass when it happens at Idle, in the pass in which the request
  began, and reads no code written by a later pass.\<close>

definition in_its_pass :: "Resolution \<Rightarrow> bool" where
  "in_its_pass r =
     (res_state r = Idle \<and> res_pass r = res_began_pass r
      \<and> (case res_code_pass r of None \<Rightarrow> True | Some k \<Rightarrow> k \<le> res_began_pass r))"

definition settled :: "(string \<Rightarrow> bool) \<Rightarrow> System \<Rightarrow> bool" where
  "settled flt sys =
     (list_all (\<lambda>p. snd p \<le> pass sys) (written sys)
      \<and> list_all (\<lambda>r. \<not> flt (res_path r) \<or> in_its_pass r) (resolved sys))"

definition sys_inv :: "(string \<Rightarrow> bool) \<Rightarrow> System \<Rightarrow> bool" where
  "sys_inv flt sys =
     (settled flt sys
      \<and> list_all (\<lambda>w. waiter_pass w = pass sys) (queue sys)
      \<and> (cstate sys = Compiling \<or> queue sys = []))"

section \<open>Properties of strings, lists and the map\<close>

lemma endsWith_iff: "endsWith name suf \<longleftrightarrow> (\<exists>p. name = p @ suf)"
proof
  assume "endsWith name suf"
  then have "name = take (length name - length suf) name @ suf"
    by (metis append_take_drop_id endsWith_def)
  then show "\<exists>p. name = p @ suf" ..
next
  assume "\<exists>p. name = p @ suf"
  then show "endsWith name suf" by (auto simp: endsWith_def)
qed

lemma isTypeScriptMap_isMap: "isTypeScriptMapOutputFile name \<Longrightarrow> isMapOutputFile name"
proof -
  assume "isTypeScriptMapOutputFile name"
  then obtain p where "name = p @ ''ts.map''"
    by (auto simp: isTypeScriptMapOutputFile_def endsWith_iff)
  then have "name = (p @ ''ts'') @ ''.map''" by simp
  then show ?thesis unfolding isMapOutputFile_def endsWith_iff by blast
qed

lemma find_not_later:
  "\<exists>m \<in> set (takeWhile (\<lambda>x. x \<noteq> n) names). P m \<Longrightarrow> List.find P names \<noteq> Some n"
  by (induction names) auto

lemma find_Some_holds: "List.find P xs = Some x \<Longrightarrow> P x"
  by (induction xs) (auto split: if_splits)

lemma Map_has_iff: "Map_has m k \<longleftrightarrow> map_of m k \<noteq> None"
  by (simp add: Map_has_def map_of_eq_None_iff)

lemma map_of_Map_set: "map_of (Map_set k v m) = (map_of m)(k \<mapsto> v)"
  by (induction m) (auto simp: fun_eq_iff)

lemma keys_Map_set:
  "map fst (Map_set k v m) = (if k \<in> set (map fst m) then map fst m else map fst m @ [k])"
  by (induction m) (auto split: if_splits)

text \<open>Splitting at the backslash and joining with the slash replaces each backslash.\<close>

lemma split_not_Nil: "split sep s \<noteq> []"
  by (induction s) (simp_all split: list.split)

lemma join_Cons_Cons: "join sep ((c # w) # ws) = c # join sep (w # ws)"
  by (cases ws) simp_all

lemma join_Nil_Cons: "ws \<noteq> [] \<Longrightarrow> join sep ([] # ws) = sep # join sep ws"
  by (cases ws) simp_all

lemma join_split: "join new (split old s) = map (\<lambda>c. if c = old then new else c) s"
proof (induction s)
  case Nil
  show ?case by simp
next
  case (Cons c cs)
  show ?case
  proof (cases "c = old")
    case True
    then show ?thesis using Cons.IH by (simp add: join_Nil_Cons split_not_Nil)
  next
    case False
    obtain w ws where "split old cs = w # ws"
      using split_not_Nil [of old cs] by (cases "split old cs") auto
    then show ?thesis using False Cons.IH by (simp add: join_Cons_Cons)
  qed
qed

lemma normalizePath_map:
  "normalizePath fileName = map (\<lambda>c. if c = CHR 0x5C then CHR ''/'' else c) fileName"
  by (simp add: normalizePath_def join_split)

section \<open>What each hook changes\<close>

text \<open>Reporting and validation touch \<^verbatim>\<open>errors\<close> and \<^verbatim>\<open>warnings\<close> only.\<close>

lemma context_error_frame:
  "parsedOptions (context_error m st) = parsedOptions st
   \<and> emittedFiles (context_error m st) = emittedFiles st
   \<and> program (context_error m st) = program st
   \<and> calls (context_error m st) = calls st"
  by (simp add: context_error_def)

lemma context_warn_frame:
  "parsedOptions (context_warn m st) = parsedOptions st
   \<and> emittedFiles (context_warn m st) = emittedFiles st
   \<and> program (context_warn m st) = program st
   \<and> calls (context_warn m st) = calls st"
  by (simp add: context_warn_def)

lemma push_messages_frame:
  "parsedOptions (push_messages ms st) = parsedOptions st
   \<and> emittedFiles (push_messages ms st) = emittedFiles st
   \<and> program (push_messages ms st) = program st
   \<and> calls (push_messages ms st) = calls st"
  by (simp add: push_messages_def)

lemma validateSourceMap_frame:
  "parsedOptions (validateSourceMap co bo a st) = parsedOptions st
   \<and> emittedFiles (validateSourceMap co bo a st) = emittedFiles st
   \<and> program (validateSourceMap co bo a st) = program st
   \<and> calls (validateSourceMap co bo a st) = calls st"
  by (simp add: validateSourceMap_def context_warn_frame)

lemma validateDir_frame:
  "parsedOptions (validateDir rel co bo od st d) = parsedOptions st
   \<and> emittedFiles (validateDir rel co bo od st d) = emittedFiles st
   \<and> program (validateDir rel co bo od st d) = program st
   \<and> calls (validateDir rel co bo od st d) = calls st"
  by (simp add: validateDir_def context_error_frame)

lemma foldl_validateDir_frame:
  "parsedOptions (foldl (validateDir rel co bo od) st ds) = parsedOptions st
   \<and> emittedFiles (foldl (validateDir rel co bo od) st ds) = emittedFiles st
   \<and> program (foldl (validateDir rel co bo od) st ds) = program st
   \<and> calls (foldl (validateDir rel co bo od) st ds) = calls st"
  by (induction ds arbitrary: st) (simp_all add: validateDir_frame)

lemma validatePaths_frame:
  "parsedOptions (validatePaths dp rel dn co bo st) = parsedOptions st
   \<and> emittedFiles (validatePaths dp rel dn co bo st) = emittedFiles st
   \<and> program (validatePaths dp rel dn co bo st) = program st
   \<and> calls (validatePaths dp rel dn co bo st) = calls st"
  by (simp add: validatePaths_def Let_def context_error_frame foldl_validateDir_frame)

lemma Watch_unique: "(a::Watch) = b"
  by (cases a; cases b) simp

lemma start_program_calls:
  "calls (start_program st) =
     calls st @ [case program st of None \<Rightarrow> CreateWatchProgram (parsedOptions st) | Some w \<Rightarrow> HelperWatch]"
  by (simp add: start_program_def split: option.split)

lemma start_program_frame:
  "parsedOptions (start_program st) = parsedOptions st
   \<and> emittedFiles (start_program st) = emittedFiles st
   \<and> program (start_program st) = Some Watch"
  by (cases "program st") (simp_all add: start_program_def Watch_unique)

lemma onStart_frame:
  "parsedOptions (onStart E P dp rel dn io st) = parsedOptions st
   \<and> emittedFiles (onStart E P dp rel dn io st) = emittedFiles st
   \<and> program (onStart E P dp rel dn io st) = Some Watch"
  by (simp add: onStart_def Let_def validatePaths_frame validateSourceMap_frame
      start_program_frame push_messages_frame)

lemma onStart_calls:
  "calls (onStart E P dp rel dn io st) =
     calls st @ [case program st of None \<Rightarrow> CreateWatchProgram (parsedOptions st) | Some w \<Rightarrow> HelperWatch]"
  by (simp add: onStart_def Let_def validatePaths_frame validateSourceMap_frame
      start_program_calls push_messages_frame split: option.split)

lemma onLoad_frame:
  "options (parsedOptions (snd (onLoad flt g c path st))) = options (parsedOptions st)
   \<and> emittedFiles (snd (onLoad flt g c path st)) = emittedFiles st
   \<and> program (snd (onLoad flt g c path st)) = program st
   \<and> calls (snd (onLoad flt g c path st)) = calls st"
  by (simp add: onLoad_def Let_def)

lemma onLoad_messages:
  "errors (snd (onLoad flt g c path st)) = (if flt path then [] else errors st)
   \<and> warnings (snd (onLoad flt g c path st)) = (if flt path then [] else warnings st)"
  by (simp add: onLoad_def Let_def)

lemma onLoad_fileNames:
  "fileNames (parsedOptions (snd (onLoad flt g c path st))) =
     (if flt path \<and> normalizePath path \<notin> set (fileNames (parsedOptions st))
      then fileNames (parsedOptions st) @ [normalizePath path]
      else fileNames (parsedOptions st))"
  by (simp add: onLoad_def Let_def)

lemma onLoad_result:
  "fst (onLoad flt g c path st) =
     (if flt path then
        (case getEmittedFile (codeFile (g (parsedOptions (snd (onLoad flt g c path st))) path))
                (emittedFiles st) c of
           None \<Rightarrow> None
         | Some content \<Rightarrow> Some \<lparr> contents = content, result_errors = errors st,
                                   result_warnings = warnings st \<rparr>)
      else None)"
  by (simp add: onLoad_def Let_def findTypescriptOutput_def)

lemma writeFile_frame:
  "parsedOptions (writeFile f d st) = parsedOptions st
   \<and> program (writeFile f d st) = program st
   \<and> errors (writeFile f d st) = errors st
   \<and> warnings (writeFile f d st) = warnings st"
  by (simp add: writeFile_def Let_def)

lemma writeFile_calls:
  "calls (writeFile f d st) =
     (if truthy (composite (options (parsedOptions st))) \<or> truthy (incremental (options (parsedOptions st)))
      then calls st @ [CacheCode f d] else calls st)"
  by (simp add: writeFile_def Let_def)

lemma writeFile_emittedFiles:
  "emittedFiles (writeFile f d st) = Map_set f d (emittedFiles st)"
  by (simp add: writeFile_def Let_def)

lemma onDispose_frame:
  "parsedOptions (onDispose st) = parsedOptions st
   \<and> emittedFiles (onDispose st) = emittedFiles st
   \<and> program (onDispose st) = program st"
  by (cases "program st") (simp_all add: onDispose_def)

lemma onDispose_calls:
  "calls (onDispose st) = calls st @ (case program st of None \<Rightarrow> [] | Some w \<Rightarrow> [ProgramClose])"
  by (cases "program st") (simp_all add: onDispose_def)

lemma created_append: "created (cs @ ds) = created cs @ created ds"
  by (induction cs rule: created.induct) simp_all

section \<open>Invariants of a run\<close>

lemma step_options:
  "options (parsedOptions (step E P dp rel dn flt g c st e)) = options (parsedOptions st)"
  by (cases e) (simp_all add: onStart_frame onLoad_frame writeFile_frame onDispose_frame
      context_error_frame context_warn_frame)

lemma step_created:
  "created (calls (step E P dp rel dn flt g c st e)) =
     created (calls st) @
       (case e of Start io \<Rightarrow> (case program st of None \<Rightarrow> [parsedOptions st] | Some w \<Rightarrow> [])
        | _ \<Rightarrow> [])"
  by (cases e) (simp_all add: onStart_calls onLoad_frame writeFile_calls onDispose_calls
      context_error_frame context_warn_frame created_append split: option.split)

lemma step_program:
  "program (step E P dp rel dn flt g c st e) =
     (case e of Start io \<Rightarrow> Some Watch | _ \<Rightarrow> program st)"
  by (cases e) (simp_all add: onStart_frame onLoad_frame writeFile_frame onDispose_frame
      context_error_frame context_warn_frame)

lemma step_inv:
  "session_inv opts st \<Longrightarrow> session_inv opts (step E P dp rel dn flt g c st e)"
  unfolding session_inv_def
  by (simp add: step_options step_created step_program split: event.split option.split)

lemma foldl_step_inv:
  "session_inv opts st \<Longrightarrow> session_inv opts (foldl (step E P dp rel dn flt g c) st es)"
  by (induction es arbitrary: st) (simp_all add: step_inv)

lemma typescript_inv:
  "session_inv (options (parsedOptions (typescript flt parsed))) (typescript flt parsed)"
  by (simp add: session_inv_def typescript_def Let_def)

lemma run_inv:
  "session_inv (options (parsedOptions (typescript flt parsed))) (run E P dp rel dn flt g c parsed es)"
  unfolding run_def using typescript_inv by (rule foldl_step_inv)

lemma starts_calls:
  "calls ((onStart E P dp rel dn io ^^ Suc n) (typescript flt parsed)) =
     CreateWatchProgram (parsedOptions (typescript flt parsed)) # replicate n HelperWatch
   \<and> program ((onStart E P dp rel dn io ^^ Suc n) (typescript flt parsed)) = Some Watch
   \<and> parsedOptions ((onStart E P dp rel dn io ^^ Suc n) (typescript flt parsed))
       = parsedOptions (typescript flt parsed)"
proof (induction n)
  case 0
  show ?case by (simp add: onStart_calls onStart_frame) (simp add: typescript_def Let_def)
next
  case (Suc n)
  then show ?case
    by (simp add: onStart_calls onStart_frame replicate_append_same)
qed

lemma loads_fileNames:
  "flt path \<Longrightarrow>
   fileNames (parsedOptions (((\<lambda>s. snd (onLoad flt g c path s)) ^^ Suc n) st))
     = (if normalizePath path \<in> set (fileNames (parsedOptions st))
        then fileNames (parsedOptions st)
        else fileNames (parsedOptions st) @ [normalizePath path])"
  by (induction n) (simp_all add: onLoad_fileNames)

lemma getEmittedFile_Some:
  "f \<noteq> [] \<Longrightarrow> getEmittedFile (Some f) emitted cached
     = (case Map_get emitted f of Some v \<Rightarrow> Some v | None \<Rightarrow> cached f)"
  by (simp add: getEmittedFile_def Map_has_iff Map_get_def split: option.split)

section \<open>Delivery of diagnostics\<close>

text \<open>A load that finds code hands over the pending errors and warnings and empties both
  lists.\<close>

lemma onLoad_with_code_delivers:
  assumes "flt path"
    and "code (findTypescriptOutput (g (parsedOptions (snd (onLoad flt g c path st))) path)
           (emittedFiles st) c) = Some content"
  shows "fst (onLoad flt g c path st)
           = Some \<lparr> contents = content, result_errors = errors st, result_warnings = warnings st \<rparr>
         \<and> errors (snd (onLoad flt g c path st)) = []
         \<and> warnings (snd (onLoad flt g c path st)) = []"
  using assms by (simp add: onLoad_result onLoad_messages findTypescriptOutput_def)

text \<open>
  C1. Every diagnostic should reach the result of some load before it is discarded, also
  when a load finds no code. The hook empties \<^verbatim>\<open>errors\<close> and \<^verbatim>\<open>warnings\<close> after the result
  is built, whether or not there is a result. Here the compiler has reported one error
  and has emitted nothing for \<^verbatim>\<open>src/a.ts\<close>: the load returns no result and the error is gone
  from \<^verbatim>\<open>errors\<close>; once \<^verbatim>\<open>out/a.js\<close> is emitted, the next load of the file returns the code
  with no error attached.
\<close>

theorem onLoad_without_code_drops_diagnostics:
  "fst (onLoad (\<lambda>p. True) (\<lambda>parsed p. [''out/a.js'']) (map_of []) ''src/a.ts''
     (context_error (message ''TS2322: Type 'string' is not assignable to type 'number'.'')
       (typescript (\<lambda>p. True)
          \<lparr> options = \<lparr> sourceMap = None, inlineSources = None, inlineSourceMap = None,
                        composite = None, incremental = None, declaration' = None,
                        declarationMap = None, stringProps = [(''outDir'', ''out'')] \<rparr>,
            fileNames = [''src/a.ts''], autoSetSourceMap = False, configPath = ''tsconfig.json'' \<rparr>)))
     = None
   \<and> errors (context_error (message ''TS2322: Type 'string' is not assignable to type 'number'.'')
       (typescript (\<lambda>p. True)
          \<lparr> options = \<lparr> sourceMap = None, inlineSources = None, inlineSourceMap = None,
                        composite = None, incremental = None, declaration' = None,
                        declarationMap = None, stringProps = [(''outDir'', ''out'')] \<rparr>,
            fileNames = [''src/a.ts''], autoSetSourceMap = False, configPath = ''tsconfig.json'' \<rparr>))
     = [message ''TS2322: Type 'string' is not assignable to type 'number'.'']
   \<and> errors (snd (onLoad (\<lambda>p. True) (\<lambda>parsed p. [''out/a.js'']) (map_of []) ''src/a.ts''
     (context_error (message ''TS2322: Type 'string' is not assignable to type 'number'.'')
       (typescript (\<lambda>p. True)
          \<lparr> options = \<lparr> sourceMap = None, inlineSources = None, inlineSourceMap = None,
                        composite = None, incremental = None, declaration' = None,
                        declarationMap = None, stringProps = [(''outDir'', ''out'')] \<rparr>,
            fileNames = [''src/a.ts''], autoSetSourceMap = False, configPath = ''tsconfig.json'' \<rparr>))))
     = []
   \<and> fst (onLoad (\<lambda>p. True) (\<lambda>parsed p. [''out/a.js'']) (map_of []) ''src/a.ts''
       (writeFile ''out/a.js'' ''var a;''
         (snd (onLoad (\<lambda>p. True) (\<lambda>parsed p. [''out/a.js'']) (map_of []) ''src/a.ts''
           (context_error (message ''TS2322: Type 'string' is not assignable to type 'number'.'')
             (typescript (\<lambda>p. True)
                \<lparr> options = \<lparr> sourceMap = None, inlineSources = None, inlineSourceMap = None,
                              composite = None, incremental = None, declaration' = None,
                              declarationMap = None, stringProps = [(''outDir'', ''out'')] \<rparr>,
                  fileNames = [''src/a.ts''], autoSetSourceMap = False,
                  configPath = ''tsconfig.json'' \<rparr>))))))
     = Some \<lparr> contents = ''var a;'', result_errors = [], result_warnings = [] \<rparr>"
  by (simp add: onLoad_result onLoad_messages onLoad_frame writeFile_frame writeFile_emittedFiles
      context_error_def typescript_def Let_def codeFile_def isCodeOutputFile_def isMapOutputFile_def
      isDeclarationOutputFile_def endsWith_def getEmittedFile_def Map_has_def Map_get_def)

section \<open>Classification of output names\<close>

text \<open>
  A map name that stands after another candidate ending in \<^verbatim>\<open>.map\<close> is one of the
  declarations and is not the map file.
\<close>

lemma later_map_is_declaration:
  assumes "isTypeScriptMapOutputFile n" and "n \<in> set names"
    and "\<exists>m \<in> set (takeWhile (\<lambda>x. x \<noteq> n) names). isMapOutputFile m"
  shows "mapFile names \<noteq> Some n
         \<and> n \<in> set (declarations (findTypescriptOutput names emitted cached))"
proof -
  have m: "mapFile names \<noteq> Some n"
    unfolding mapFile_def using assms(3) by (rule find_not_later)
  have "isMapOutputFile n" using assms(1) by (rule isTypeScriptMap_isMap)
  then have "\<not> isCodeOutputFile n" by (simp add: isCodeOutputFile_def)
  then have c: "codeFile names \<noteq> Some n"
    unfolding codeFile_def using find_Some_holds by metis
  from m c assms(2) show ?thesis
    by (auto simp: findTypescriptOutput_def)
qed

text \<open>
  C2. A declaration map among the candidates, such as \<^verbatim>\<open>a.d.ts.map\<close>, should be one of the
  declarations and never the map file, wherever it stands in the list.
  \<^verbatim>\<open>findTypescriptOutput\<close> takes the first name ending in \<^verbatim>\<open>.map\<close> as the map file. For the
  candidates \<^verbatim>\<open>["a.js", "a.d.ts", "a.d.ts.map"]\<close>, the names of a module compiled with
  declaration maps and without a source map file, the declaration map is the map file,
  its content fills the map slot, and it is missing from the declarations.
\<close>

theorem declaration_map_taken_as_map:
  "isTypeScriptMapOutputFile ''a.d.ts.map''
   \<and> mapFile [''a.js'', ''a.d.ts'', ''a.d.ts.map''] = Some ''a.d.ts.map''
   \<and> findTypescriptOutput [''a.js'', ''a.d.ts'', ''a.d.ts.map'']
        [(''a.js'', ''J''), (''a.d.ts'', ''D''), (''a.d.ts.map'', ''M'')] (map_of [])
      = \<lparr> code = Some ''J'', map' = Some ''M'', declarations = [''a.d.ts''] \<rparr>"
  by (simp add: findTypescriptOutput_def codeFile_def mapFile_def isCodeOutputFile_def
      isMapOutputFile_def isDeclarationOutputFile_def isTypeScriptMapOutputFile_def endsWith_def
      getEmittedFile_def Map_has_def Map_get_def)

text \<open>
  C8. For the candidates \<^verbatim>\<open>["a.js", "a.js.map", "a.d.ts", "a.d.ts.map"]\<close> the code file is
  \<^verbatim>\<open>a.js\<close>, the map file is \<^verbatim>\<open>a.js.map\<close>, the declarations are \<^verbatim>\<open>a.d.ts\<close> and
  \<^verbatim>\<open>a.d.ts.map\<close>, and the code and map slots hold the contents looked up under these two
  names.
\<close>

theorem findTypescriptOutput_usual_candidates:
  "codeFile [''a.js'', ''a.js.map'', ''a.d.ts'', ''a.d.ts.map''] = Some ''a.js''
   \<and> mapFile [''a.js'', ''a.js.map'', ''a.d.ts'', ''a.d.ts.map''] = Some ''a.js.map''
   \<and> findTypescriptOutput [''a.js'', ''a.js.map'', ''a.d.ts'', ''a.d.ts.map''] emitted cached =
       \<lparr> code = getEmittedFile (Some ''a.js'') emitted cached,
         map' = getEmittedFile (Some ''a.js.map'') emitted cached,
         declarations = [''a.d.ts'', ''a.d.ts.map''] \<rparr>"
  by (simp add: findTypescriptOutput_def codeFile_def mapFile_def isCodeOutputFile_def
      isMapOutputFile_def isDeclarationOutputFile_def endsWith_def)

section \<open>The names listed at the end of a build\<close>

text \<open>A name is listed when it is a key of \<^verbatim>\<open>emittedFiles\<close> and is either a declaration
  whose source passes the filter, or a TypeScript map.\<close>

lemma declarationAndTypeScriptMapFiles_iff:
  "name \<in> set (declarationAndTypeScriptMapFiles flt st) \<longleftrightarrow>
     Map_has (emittedFiles st) name
     \<and> ((isDeclarationOutputFile name \<and> flt (replace_d_ts name)) \<or> isTypeScriptMapOutputFile name)"
  by (auto simp: declarationAndTypeScriptMapFiles_def Map_keys_def Map_has_def)

text \<open>
  C3. The names listed at the end of a build should be the emitted declarations and
  TypeScript maps whose input passes the inclusion filter. The filter is applied to
  declarations only. Here the filter admits \<^verbatim>\<open>src/b.ts\<close> alone and the compiler has emitted
  a declaration and a declaration map for \<^verbatim>\<open>src/a.ts\<close> and for \<^verbatim>\<open>src/b.ts\<close>: the
  declaration of the excluded \<^verbatim>\<open>src/a.ts\<close> is left out, its map \<^verbatim>\<open>src/a.d.ts.map\<close> is listed.
\<close>

theorem onEnd_lists_map_of_excluded_input:
  "declarationAndTypeScriptMapFiles (\<lambda>p. p = ''src/b.ts'')
     (writeFile ''src/b.d.ts.map'' ''{}''
       (writeFile ''src/b.d.ts'' ''export declare const b: number;''
         (writeFile ''src/a.d.ts.map'' ''{}''
           (writeFile ''src/a.d.ts'' ''export declare const a: number;''
             (typescript (\<lambda>p. p = ''src/b.ts'')
                \<lparr> options = \<lparr> sourceMap = None, inlineSources = None, inlineSourceMap = None,
                              composite = None, incremental = None, declaration' = Some True,
                              declarationMap = Some True, stringProps = [] \<rparr>,
                  fileNames = [''src/b.ts''], autoSetSourceMap = False,
                  configPath = ''tsconfig.json'' \<rparr>)))))
   = [''src/a.d.ts.map'', ''src/b.d.ts'', ''src/b.d.ts.map'']"
  by (simp add: declarationAndTypeScriptMapFiles_def Map_keys_def writeFile_emittedFiles
      isDeclarationOutputFile_def isTypeScriptMapOutputFile_def replace_d_ts_def endsWith_def
      typescript_def Let_def)

section \<open>Emitted files and the cache\<close>

text \<open>
  C5. \<^verbatim>\<open>writeFile\<close> stores the content in \<^verbatim>\<open>emittedFiles\<close> under the file name and leaves
  every other entry as it was, a new name coming last among the keys; it calls \<^verbatim>\<open>tsCache.cacheCode\<close> with the name and the content
  if \<^verbatim>\<open>composite\<close> or \<^verbatim>\<open>incremental\<close> is set, and makes no call to the cache otherwise.
\<close>

theorem writeFile_stores_and_caches:
  "Map_get (emittedFiles (writeFile fileName data st)) k
     = (if k = fileName then Some data else Map_get (emittedFiles st) k)
   \<and> Map_keys (emittedFiles (writeFile fileName data st))
     = (if Map_has (emittedFiles st) fileName then Map_keys (emittedFiles st)
        else Map_keys (emittedFiles st) @ [fileName])
   \<and> calls (writeFile fileName data st)
     = (if truthy (composite (options (parsedOptions st)))
           \<or> truthy (incremental (options (parsedOptions st)))
        then calls st @ [CacheCode fileName data] else calls st)
   \<and> ((calls (writeFile fileName data st) \<noteq> calls st)
        = (truthy (composite (options (parsedOptions st)))
           \<or> truthy (incremental (options (parsedOptions st)))))"
proof -
  have stored: "Map_get (emittedFiles (writeFile fileName data st)) k
      = (if k = fileName then Some data else Map_get (emittedFiles st) k)"
    by (simp add: writeFile_emittedFiles Map_get_def map_of_Map_set)
  have keys: "Map_keys (emittedFiles (writeFile fileName data st))
      = (if Map_has (emittedFiles st) fileName then Map_keys (emittedFiles st)
         else Map_keys (emittedFiles st) @ [fileName])"
    unfolding writeFile_emittedFiles Map_keys_def Map_has_def by (rule keys_Map_set)
  have cached: "calls (writeFile fileName data st)
      = (if truthy (composite (options (parsedOptions st)))
            \<or> truthy (incremental (options (parsedOptions st)))
         then calls st @ [CacheCode fileName data] else calls st)"
    by (rule writeFile_calls)
  have "calls st @ [CacheCode fileName data] \<noteq> calls st"
    by simp
  with cached have changed: "(calls (writeFile fileName data st) \<noteq> calls st)
      = (truthy (composite (options (parsedOptions st)))
         \<or> truthy (incremental (options (parsedOptions st))))"
    by simp
  from stored keys cached changed show ?thesis
    by (intro conjI)
qed

text \<open>
  C6. \<^verbatim>\<open>getEmittedFile\<close> answers undefined for an undefined or empty name; for any other
  name it answers from \<^verbatim>\<open>emittedFiles\<close> when the name is a key there, whatever the cache
  holds, and from the cache otherwise, so a name in neither is undefined. The code slot
  and the map slot of \<^verbatim>\<open>findTypescriptOutput\<close> are \<^verbatim>\<open>getEmittedFile\<close> of the code file and of
  the map file. \<^verbatim>\<open>onLoad\<close> returns a result exactly when the path passes the filter and
  the code file resolves to a content, and no result otherwise.
\<close>

theorem resolve_emitted_then_cache:
  "getEmittedFile fileName emitted cached =
     (case fileName of
        None \<Rightarrow> None
      | Some f \<Rightarrow> if f = [] then None
                  else (case Map_get emitted f of Some v \<Rightarrow> Some v | None \<Rightarrow> cached f))
   \<and> code (findTypescriptOutput names emitted cached) = getEmittedFile (codeFile names) emitted cached
   \<and> map' (findTypescriptOutput names emitted cached) = getEmittedFile (mapFile names) emitted cached
   \<and> fst (onLoad flt g c path st) =
       (if flt path then
          (case getEmittedFile
                  (codeFile (g (if normalizePath path \<in> set (fileNames (parsedOptions st))
                                then parsedOptions st
                                else (parsedOptions st)
                                       \<lparr>fileNames := fileNames (parsedOptions st) @ [normalizePath path]\<rparr>)
                               path))
                  (emittedFiles st) c of
             None \<Rightarrow> None
           | Some content \<Rightarrow> Some \<lparr> contents = content, result_errors = errors st,
                                     result_warnings = warnings st \<rparr>)
        else None)"
proof -
  have get: "getEmittedFile fileName emitted cached =
     (case fileName of
        None \<Rightarrow> None
      | Some f \<Rightarrow> if f = [] then None
                  else (case Map_get emitted f of Some v \<Rightarrow> Some v | None \<Rightarrow> cached f))"
  proof (cases fileName)
    case None
    then show ?thesis by (simp add: getEmittedFile_def)
  next
    case (Some f)
    show ?thesis
    proof (cases "f = []")
      case True
      with Some show ?thesis by (simp add: getEmittedFile_def)
    next
      case False
      with Some show ?thesis by (simp add: getEmittedFile_Some)
    qed
  qed
  have slots: "code (findTypescriptOutput names emitted cached) = getEmittedFile (codeFile names) emitted cached"
    "map' (findTypescriptOutput names emitted cached) = getEmittedFile (mapFile names) emitted cached"
    by (simp_all add: findTypescriptOutput_def)
  have load: "fst (onLoad flt g c path st) =
       (if flt path then
          (case getEmittedFile
                  (codeFile (g (if normalizePath path \<in> set (fileNames (parsedOptions st))
                                then parsedOptions st
                                else (parsedOptions st)
                                       \<lparr>fileNames := fileNames (parsedOptions st) @ [normalizePath path]\<rparr>)
                               path))
                  (emittedFiles st) c of
             None \<Rightarrow> None
           | Some content \<Rightarrow> Some \<lparr> contents = content, result_errors = errors st,
                                     result_warnings = warnings st \<rparr>)
        else None)"
    by (simp add: onLoad_def Let_def findTypescriptOutput_def)
  from get slots load show ?thesis by (intro conjI)
qed

theorem resolve_emitted_then_cache_witness:
  "code (findTypescriptOutput [''out/a.js'', ''out/a.js.map''] [(''out/a.js'', ''live'')]
           (map_of [(''out/a.js'', ''stale''), (''out/a.js.map'', ''cached map'')])) = Some ''live''
   \<and> map' (findTypescriptOutput [''out/a.js'', ''out/a.js.map''] [(''out/a.js'', ''live'')]
           (map_of [(''out/a.js'', ''stale''), (''out/a.js.map'', ''cached map'')])) = Some ''cached map''
   \<and> code (findTypescriptOutput [''out/a.js'', ''out/a.js.map''] [] (map_of [])) = None
   \<and> getEmittedFile None [(''out/a.js'', ''live'')] (map_of [(''out/a.js'', ''stale'')]) = None
   \<and> getEmittedFile (Some []) [([], ''live'')] (map_of [([], ''stale'')]) = None
   \<and> fst (onLoad (\<lambda>p. True) (\<lambda>parsed p. [''out/a.js'', ''out/a.js.map'']) (map_of []) ''src/a.ts''
        (typescript (\<lambda>p. True)
          \<lparr> options = \<lparr> sourceMap = None, inlineSources = None, inlineSourceMap = None,
                        composite = None, incremental = None, declaration' = None,
                        declarationMap = None, stringProps = [(''outDir'', ''out'')] \<rparr>,
            fileNames = [''src/a.ts''], autoSetSourceMap = False, configPath = ''tsconfig.json'' \<rparr>))
      = None"
proof -
  have n: "codeFile [''out/a.js'', ''out/a.js.map''] = Some ''out/a.js''"
    "mapFile [''out/a.js'', ''out/a.js.map''] = Some ''out/a.js.map''"
    by (simp_all add: codeFile_def mapFile_def isCodeOutputFile_def isMapOutputFile_def
        isDeclarationOutputFile_def endsWith_def)
  have e: "emittedFiles (typescript (\<lambda>p. True)
          \<lparr> options = \<lparr> sourceMap = None, inlineSources = None, inlineSourceMap = None,
                        composite = None, incremental = None, declaration' = None,
                        declarationMap = None, stringProps = [(''outDir'', ''out'')] \<rparr>,
            fileNames = [''src/a.ts''], autoSetSourceMap = False, configPath = ''tsconfig.json'' \<rparr>)
        = []"
    by (simp add: typescript_def Let_def)
  from resolve_emitted_then_cache [where names = "[''out/a.js'', ''out/a.js.map'']"
      and emitted = "[(''out/a.js'', ''live'')]"
      and cached = "map_of [(''out/a.js'', ''stale''), (''out/a.js.map'', ''cached map'')]"
      and fileName = "Some ''out/a.js''"]
    resolve_emitted_then_cache [where names = "[''out/a.js'', ''out/a.js.map'']"
      and emitted = "[(''out/a.js'', ''live'')]"
      and cached = "map_of [(''out/a.js'', ''stale''), (''out/a.js.map'', ''cached map'')]"
      and fileName = "Some ''out/a.js.map''"]
    resolve_emitted_then_cache [where names = "[''out/a.js'', ''out/a.js.map'']"
      and emitted = "[]" and cached = "map_of []" and fileName = "Some ''out/a.js''"]
    resolve_emitted_then_cache [where fileName = None and emitted = "[(''out/a.js'', ''live'')]"
      and cached = "map_of [(''out/a.js'', ''stale'')]"]
    resolve_emitted_then_cache [where fileName = "Some []" and emitted = "[([], ''live'')]"
      and cached = "map_of [([], ''stale'')]"]
    resolve_emitted_then_cache [where flt = "\<lambda>p. True"
      and g = "\<lambda>parsed p. [''out/a.js'', ''out/a.js.map'']" and c = "map_of []"
      and path = "''src/a.ts''"
      and fileName = "Some ''out/a.js''" and emitted = "[]"
      and st = "typescript (\<lambda>p. True)
          \<lparr> options = \<lparr> sourceMap = None, inlineSources = None, inlineSourceMap = None,
                        composite = None, incremental = None, declaration' = None,
                        declarationMap = None, stringProps = [(''outDir'', ''out'')] \<rparr>,
            fileNames = [''src/a.ts''], autoSetSourceMap = False, configPath = ''tsconfig.json'' \<rparr>"]
  show ?thesis unfolding n e by (simp add: Map_get_def)
qed

section \<open>Discovered files\<close>

text \<open>
  C7. Loading a path that passes the filter, once or several times in a row, appends its
  normalized name to \<^verbatim>\<open>fileNames\<close> once if the name was not in the list, and appends
  nothing if it was; a name that was absent then occurs exactly once. No load removes a
  name: the old list is an initial part of the new one.
\<close>

theorem onLoad_discovers_once:
  assumes "flt path"
  shows "fileNames (parsedOptions (((\<lambda>s. snd (onLoad flt g c path s)) ^^ Suc n) st))
           = (if normalizePath path \<in> set (fileNames (parsedOptions st))
              then fileNames (parsedOptions st)
              else fileNames (parsedOptions st) @ [normalizePath path])
    \<and> count_list (fileNames (parsedOptions (((\<lambda>s. snd (onLoad flt g c path s)) ^^ Suc n) st)))
        (normalizePath path)
       = (if normalizePath path \<in> set (fileNames (parsedOptions st))
          then count_list (fileNames (parsedOptions st)) (normalizePath path) else 1)
    \<and> take (length (fileNames (parsedOptions st')))
        (fileNames (parsedOptions (snd (onLoad flt' g' c' path' st'))))
       = fileNames (parsedOptions st')"
proof -
  have 1: "fileNames (parsedOptions (((\<lambda>s. snd (onLoad flt g c path s)) ^^ Suc n) st))
           = (if normalizePath path \<in> set (fileNames (parsedOptions st))
              then fileNames (parsedOptions st)
              else fileNames (parsedOptions st) @ [normalizePath path])"
    using assms by (rule loads_fileNames)
  have 2: "normalizePath path \<notin> set (fileNames (parsedOptions st)) \<Longrightarrow>
      count_list (fileNames (parsedOptions st) @ [normalizePath path]) (normalizePath path) = 1"
    by (simp add: count_list_0_iff)
  have 3: "take (length (fileNames (parsedOptions st')))
        (fileNames (parsedOptions (snd (onLoad flt' g' c' path' st'))))
       = fileNames (parsedOptions st')"
    by (simp add: onLoad_fileNames)
  show ?thesis unfolding 1 using 2 3 by simp
qed

theorem onLoad_discovers_once_witness:
  "endsWith (''src'' @ CHR 0x5C # ''b.ts'') ''.ts''
   \<and> fileNames (parsedOptions (typescript (\<lambda>p. endsWith p ''.ts'')
        \<lparr> options = \<lparr> sourceMap = None, inlineSources = None, inlineSourceMap = None,
                      composite = None, incremental = None, declaration' = None,
                      declarationMap = None, stringProps = [(''outDir'', ''out'')] \<rparr>,
          fileNames = [''src/a.ts'', ''README.md''], autoSetSourceMap = False,
          configPath = ''tsconfig.json'' \<rparr>)) = [''src/a.ts'']
   \<and> fileNames (parsedOptions
        (((\<lambda>s. snd (onLoad (\<lambda>p. endsWith p ''.ts'') (\<lambda>parsed p. [''out/b.js'']) (map_of [])
                  (''src'' @ CHR 0x5C # ''b.ts'') s)) ^^ Suc 2)
          (typescript (\<lambda>p. endsWith p ''.ts'')
            \<lparr> options = \<lparr> sourceMap = None, inlineSources = None, inlineSourceMap = None,
                          composite = None, incremental = None, declaration' = None,
                          declarationMap = None, stringProps = [(''outDir'', ''out'')] \<rparr>,
              fileNames = [''src/a.ts'', ''README.md''], autoSetSourceMap = False,
              configPath = ''tsconfig.json'' \<rparr>)))
      = [''src/a.ts'', ''src/b.ts'']"
proof -
  have h: "(\<lambda>p. endsWith p ''.ts'') (''src'' @ CHR 0x5C # ''b.ts'')"
    by (simp add: endsWith_def)
  have n: "normalizePath (''src'' @ CHR 0x5C # ''b.ts'') = ''src/b.ts''"
    by (simp add: normalizePath_map)
  from onLoad_discovers_once [of "\<lambda>p. endsWith p ''.ts''", OF h,
      where g = "\<lambda>parsed p. [''out/b.js'']" and c = "map_of []" and n = 2
        and st = "typescript (\<lambda>p. endsWith p ''.ts'')
            \<lparr> options = \<lparr> sourceMap = None, inlineSources = None, inlineSourceMap = None,
                          composite = None, incremental = None, declaration' = None,
                          declarationMap = None, stringProps = [(''outDir'', ''out'')] \<rparr>,
              fileNames = [''src/a.ts'', ''README.md''], autoSetSourceMap = False,
              configPath = ''tsconfig.json'' \<rparr>"]
  have "fileNames (parsedOptions
        (((\<lambda>s. snd (onLoad (\<lambda>p. endsWith p ''.ts'') (\<lambda>parsed p. [''out/b.js'']) (map_of [])
                  (''src'' @ CHR 0x5C # ''b.ts'') s)) ^^ Suc 2)
          (typescript (\<lambda>p. endsWith p ''.ts'')
            \<lparr> options = \<lparr> sourceMap = None, inlineSources = None, inlineSourceMap = None,
                          composite = None, incremental = None, declaration' = None,
                          declarationMap = None, stringProps = [(''outDir'', ''out'')] \<rparr>,
              fileNames = [''src/a.ts'', ''README.md''], autoSetSourceMap = False,
              configPath = ''tsconfig.json'' \<rparr>)))
      = [''src/a.ts'', ''src/b.ts'']"
    unfolding n by (simp add: typescript_def Let_def endsWith_def del: funpow.simps)
  moreover have "fileNames (parsedOptions (typescript (\<lambda>p. endsWith p ''.ts'')
        \<lparr> options = \<lparr> sourceMap = None, inlineSources = None, inlineSourceMap = None,
                      composite = None, incremental = None, declaration' = None,
                      declarationMap = None, stringProps = [(''outDir'', ''out'')] \<rparr>,
          fileNames = [''src/a.ts'', ''README.md''], autoSetSourceMap = False,
          configPath = ''tsconfig.json'' \<rparr>)) = [''src/a.ts'']"
    by (simp add: typescript_def Let_def endsWith_def)
  ultimately show ?thesis using h by simp
qed

section \<open>The watch program\<close>

text \<open>
  C9. \<^verbatim>\<open>onStart\<close> creates the watch program when \<^verbatim>\<open>program\<close> is empty and calls
  \<^verbatim>\<open>watchProgramHelper.watch()\<close> otherwise, and \<^verbatim>\<open>program\<close> is set afterwards. So the first
  start after the factory creates the program, each later start only signals, and no run
  of the plugin creates more than one watch program.
\<close>

theorem onStart_creates_once:
  "calls (onStart E P dp rel dn io st) =
     calls st @ [case program st of None \<Rightarrow> CreateWatchProgram (parsedOptions st)
                 | Some w \<Rightarrow> HelperWatch]
   \<and> program (onStart E P dp rel dn io st) = Some Watch
   \<and> calls ((onStart E P dp rel dn io ^^ Suc n) (typescript flt parsed)) =
       CreateWatchProgram (parsedOptions (typescript flt parsed)) # replicate n HelperWatch
   \<and> length (created (calls (run E P dp rel dn flt g c parsed es))) \<le> 1"
proof -
  have "session_inv (options (parsedOptions (typescript flt parsed))) (run E P dp rel dn flt g c parsed es)"
    by (rule run_inv)
  then have "length (map options (created (calls (run E P dp rel dn flt g c parsed es)))) \<le> 1"
    unfolding session_inv_def by (simp split: option.split)
  then show ?thesis
    by (simp add: onStart_calls onStart_frame starts_calls del: funpow.simps)
qed

text \<open>
  C10. When the parsed configuration has \<^verbatim>\<open>sourceMap\<close> set, the factory leaves it false,
  sets \<^verbatim>\<open>inlineSources\<close> and \<^verbatim>\<open>inlineSourceMap\<close>, and keeps every other option,
  \<^verbatim>\<open>declarationMap\<close> among them; every watch program created in a run is created with these
  options.
\<close>

theorem typescript_inlines_source_maps:
  assumes "truthy (sourceMap (options parsed))"
  shows "options (parsedOptions (typescript flt parsed))
      = (options parsed)\<lparr>sourceMap := Some False, inlineSources := Some True,
                          inlineSourceMap := Some True\<rparr>
    \<and> sourceMap (options (parsedOptions (typescript flt parsed))) = Some False
    \<and> inlineSources (options (parsedOptions (typescript flt parsed))) = Some True
    \<and> inlineSourceMap (options (parsedOptions (typescript flt parsed))) = Some True
    \<and> declarationMap (options (parsedOptions (typescript flt parsed)))
      = declarationMap (options parsed)
    \<and> list_all (\<lambda>p. options p
                      = (options parsed)\<lparr>sourceMap := Some False, inlineSources := Some True,
                                          inlineSourceMap := Some True\<rparr>)
        (created (calls (run E P dp rel dn flt g c parsed es)))"
proof -
  let ?opts = "options (parsedOptions (typescript flt parsed))"
  have o: "?opts = (options parsed)\<lparr>sourceMap := Some False, inlineSources := Some True,
                          inlineSourceMap := Some True\<rparr>"
    using assms by (simp add: typescript_def Let_def)
  have "session_inv ?opts (run E P dp rel dn flt g c parsed es)"
    by (rule run_inv)
  then have "set (map options (created (calls (run E P dp rel dn flt g c parsed es)))) \<subseteq> {?opts}"
    unfolding session_inv_def by (auto split: option.splits)
  then have "\<forall>p \<in> set (created (calls (run E P dp rel dn flt g c parsed es))). options p = ?opts"
    by auto
  then have l: "list_all (\<lambda>p. options p = ?opts)
        (created (calls (run E P dp rel dn flt g c parsed es)))"
    by (simp add: list_all_iff)
  show ?thesis using l unfolding o by simp
qed

theorem typescript_inlines_source_maps_witness:
  "truthy (sourceMap (options
      \<lparr> options = \<lparr> sourceMap = Some True, inlineSources = None, inlineSourceMap = None,
                    composite = None, incremental = None, declaration' = None,
                    declarationMap = None, stringProps = [(''outDir'', ''out'')] \<rparr>,
        fileNames = [''src/a.ts''], autoSetSourceMap = False, configPath = ''tsconfig.json'' \<rparr>))
   \<and> created (calls (run (\<lambda>p. ([], [])) (\<lambda>p b. ([], [])) [''outDir'', ''declarationDir'']
        (\<lambda>a b. b) (\<lambda>p. ''.'') (\<lambda>p. True) (\<lambda>p f. [''out/a.js'']) (map_of [])
        \<lparr> options = \<lparr> sourceMap = Some True, inlineSources = None, inlineSourceMap = None,
                      composite = None, incremental = None, declaration' = None,
                      declarationMap = None, stringProps = [(''outDir'', ''out'')] \<rparr>,
          fileNames = [''src/a.ts''], autoSetSourceMap = False, configPath = ''tsconfig.json'' \<rparr>
        [Start \<lparr> sourcemap = None, outdir = Some ''out'', outfile = None \<rparr>,
         WriteFile ''out/a.js'' ''var a;'', Load ''src/a.ts'',
         Start \<lparr> sourcemap = None, outdir = Some ''out'', outfile = None \<rparr>]))
     = [\<lparr> options = \<lparr> sourceMap = Some False, inlineSources = Some True, inlineSourceMap = Some True,
                      composite = None, incremental = None, declaration' = None,
                      declarationMap = None, stringProps = [(''outDir'', ''out'')] \<rparr>,
          fileNames = [''src/a.ts''], autoSetSourceMap = False, configPath = ''tsconfig.json'' \<rparr>]
   \<and> list_all (\<lambda>p. sourceMap (options p) = Some False \<and> inlineSources (options p) = Some True
                   \<and> inlineSourceMap (options p) = Some True)
        (created (calls (run (\<lambda>p. ([], [])) (\<lambda>p b. ([], [])) [''outDir'', ''declarationDir'']
        (\<lambda>a b. b) (\<lambda>p. ''.'') (\<lambda>p. True) (\<lambda>p f. [''out/a.js'']) (map_of [])
        \<lparr> options = \<lparr> sourceMap = Some True, inlineSources = None, inlineSourceMap = None,
                      composite = None, incremental = None, declaration' = None,
                      declarationMap = None, stringProps = [(''outDir'', ''out'')] \<rparr>,
          fileNames = [''src/a.ts''], autoSetSourceMap = False, configPath = ''tsconfig.json'' \<rparr>
        [Start \<lparr> sourcemap = None, outdir = Some ''out'', outfile = None \<rparr>,
         WriteFile ''out/a.js'' ''var a;'', Load ''src/a.ts'',
         Start \<lparr> sourcemap = None, outdir = Some ''out'', outfile = None \<rparr>])))"
proof -
  let ?parsed = "\<lparr> options = \<lparr> sourceMap = Some True, inlineSources = None, inlineSourceMap = None,
                    composite = None, incremental = None, declaration' = None,
                    declarationMap = None, stringProps = [(''outDir'', ''out'')] \<rparr>,
        fileNames = [''src/a.ts''], autoSetSourceMap = False, configPath = ''tsconfig.json'' \<rparr>"
  have h: "truthy (sourceMap (options ?parsed))" by simp
  have c: "created (calls (run (\<lambda>p. ([], [])) (\<lambda>p b. ([], [])) [''outDir'', ''declarationDir'']
        (\<lambda>a b. b) (\<lambda>p. ''.'') (\<lambda>p. True) (\<lambda>p f. [''out/a.js'']) (map_of []) ?parsed
        [Start \<lparr> sourcemap = None, outdir = Some ''out'', outfile = None \<rparr>,
         WriteFile ''out/a.js'' ''var a;'', Load ''src/a.ts'',
         Start \<lparr> sourcemap = None, outdir = Some ''out'', outfile = None \<rparr>]))
     = [\<lparr> options = \<lparr> sourceMap = Some False, inlineSources = Some True, inlineSourceMap = Some True,
                      composite = None, incremental = None, declaration' = None,
                      declarationMap = None, stringProps = [(''outDir'', ''out'')] \<rparr>,
          fileNames = [''src/a.ts''], autoSetSourceMap = False, configPath = ''tsconfig.json'' \<rparr>]"
    by (simp add: run_def step_created step_program typescript_def Let_def del: step.simps)
  from typescript_inlines_source_maps [OF h] h c show ?thesis by simp
qed

text \<open>
  Map files are still requested: with \<^verbatim>\<open>sourceMap\<close>, \<^verbatim>\<open>declaration\<close> and \<^verbatim>\<open>declarationMap\<close> set,
  the watch program is created with \<^verbatim>\<open>declarationMap\<close> on, and the declaration map the
  compiler writes is among the names listed at the end of the build.
\<close>

theorem declaration_map_still_requested:
  "truthy (sourceMap (options
      \<lparr> options = \<lparr> sourceMap = Some True, inlineSources = None, inlineSourceMap = None,
                    composite = None, incremental = None, declaration' = Some True,
                    declarationMap = Some True, stringProps = [(''outDir'', ''out'')] \<rparr>,
        fileNames = [''src/a.ts''], autoSetSourceMap = False, configPath = ''tsconfig.json'' \<rparr>))
   \<and> calls (start_program (typescript ((=) ''src/a.ts'')
        \<lparr> options = \<lparr> sourceMap = Some True, inlineSources = None, inlineSourceMap = None,
                      composite = None, incremental = None, declaration' = Some True,
                      declarationMap = Some True, stringProps = [(''outDir'', ''out'')] \<rparr>,
          fileNames = [''src/a.ts''], autoSetSourceMap = False, configPath = ''tsconfig.json'' \<rparr>))
     = [CreateWatchProgram
          \<lparr> options = \<lparr> sourceMap = Some False, inlineSources = Some True,
                        inlineSourceMap = Some True, composite = None, incremental = None,
                        declaration' = Some True, declarationMap = Some True,
                        stringProps = [(''outDir'', ''out'')] \<rparr>,
            fileNames = [''src/a.ts''], autoSetSourceMap = False, configPath = ''tsconfig.json'' \<rparr>]
   \<and> declarationAndTypeScriptMapFiles ((=) ''src/a.ts'')
        (writeFile ''src/a.d.ts.map'' ''{}''
          (writeFile ''src/a.d.ts'' ''export declare const a: number;''
            (writeFile ''src/a.js'' ''var a;''
              (start_program (typescript ((=) ''src/a.ts'')
                \<lparr> options = \<lparr> sourceMap = Some True, inlineSources = None, inlineSourceMap = None,
                              composite = None, incremental = None, declaration' = Some True,
                              declarationMap = Some True, stringProps = [(''outDir'', ''out'')] \<rparr>,
                  fileNames = [''src/a.ts''], autoSetSourceMap = False,
                  configPath = ''tsconfig.json'' \<rparr>)))))
     = [''src/a.d.ts'', ''src/a.d.ts.map'']"
  by (simp add: declarationAndTypeScriptMapFiles_def Map_keys_def writeFile_emittedFiles
      start_program_def isDeclarationOutputFile_def isTypeScriptMapOutputFile_def replace_d_ts_def
      endsWith_def typescript_def Let_def)

section \<open>Loads and compile passes\<close>

lemma map_of_bound:
  "list_all (\<lambda>p. snd p \<le> (b::nat)) xs \<Longrightarrow> map_of xs n = Some k \<Longrightarrow> k \<le> b"
  by (induction xs) (auto split: if_splits)

lemma resume_fields:
  "cstate (resume flt g c path bs bp sys) = cstate sys
   \<and> queue (resume flt g c path bs bp sys) = queue sys
   \<and> pass (resume flt g c path bs bp sys) = pass sys
   \<and> written (resume flt g c path bs bp sys) = written sys"
  by (simp add: resume_def Let_def)

lemma resume_settled:
  assumes "settled flt sys" and "bp = pass sys" and "\<not> flt path \<or> cstate sys = Idle"
  shows "settled flt (resume flt g c path bs bp sys)"
proof -
  have w: "list_all (\<lambda>p. snd p \<le> pass sys) (written sys)"
    using assms(1) by (simp add: settled_def)
  have "\<And>n k. map_of (written sys) n = Some k \<Longrightarrow> k \<le> pass sys"
    using w by (rule map_of_bound)
  then show ?thesis
    using assms
    by (auto simp: settled_def resume_def Let_def in_its_pass_def split: option.splits)
qed

lemma drain_settled:
  assumes "settled flt sys" and "cstate sys = Idle"
    and "list_all (\<lambda>w. waiter_pass w = pass sys) ws"
  shows "settled flt (foldl (\<lambda>sys' w. resume flt g c (waiter_path w) Compiling (waiter_pass w) sys') sys ws)
    \<and> cstate (foldl (\<lambda>sys' w. resume flt g c (waiter_path w) Compiling (waiter_pass w) sys') sys ws) = Idle
    \<and> pass (foldl (\<lambda>sys' w. resume flt g c (waiter_path w) Compiling (waiter_pass w) sys') sys ws) = pass sys"
  using assms
proof (induction ws arbitrary: sys)
  case Nil
  then show ?case by simp
next
  case (Cons w ws)
  let ?s = "resume flt g c (waiter_path w) Compiling (waiter_pass w) sys"
  have 1: "settled flt ?s"
    using Cons.prems by (intro resume_settled) simp_all
  have 2: "cstate ?s = Idle" "pass ?s = pass sys"
    using Cons.prems by (simp_all add: resume_fields)
  have 3: "list_all (\<lambda>w. waiter_pass w = pass ?s) ws"
    using Cons.prems 2 by simp
  from Cons.IH [OF 1 2(1) 3] 2 show ?case by simp
qed

lemma markCompiling_inv: "sys_inv flt sys \<Longrightarrow> sys_inv flt (markCompiling sys)"
  by (cases "cstate sys")
    (auto simp: sys_inv_def settled_def markCompiling_def list_all_iff)

lemma plugin_update_inv: "sys_inv flt sys \<Longrightarrow> sys_inv flt (sys\<lparr>plugin := st\<rparr>)"
  by (simp add: sys_inv_def settled_def)

lemma load_inv: "sys_inv flt sys \<Longrightarrow> sys_inv flt (load flt g c path sys)"
proof -
  assume inv: "sys_inv flt sys"
  show ?thesis
  proof (cases "flt path \<and> cstate sys = Compiling")
    case True
    then show ?thesis using inv
      by (simp add: load_def wait_def sys_inv_def settled_def)
  next
    case False
    then have f: "\<not> flt path \<or> cstate sys = Idle"
      by (cases "cstate sys") auto
    have l: "load flt g c path sys = resume flt g c path (cstate sys) (pass sys) sys"
      using f by (cases "cstate sys") (auto simp: load_def wait_def)
    have "settled flt (resume flt g c path (cstate sys) (pass sys) sys)"
      using inv f by (intro resume_settled) (simp_all add: sys_inv_def)
    then show ?thesis using inv unfolding l by (simp add: sys_inv_def resume_fields)
  qed
qed

lemma handleStatus_inv: "sys_inv flt sys \<Longrightarrow> sys_inv flt (handleStatus flt g c s sys)"
proof (cases s)
  case FileChangeDetected
  assume "sys_inv flt sys"
  then show ?thesis using FileChangeDetected by (simp add: handleStatus_def markCompiling_inv)
next
  case WatchingForChanges
  assume inv: "sys_inv flt sys"
  let ?s = "sys\<lparr>cstate := Idle\<rparr>"
  have 1: "settled flt ?s" using inv by (simp add: sys_inv_def settled_def)
  have 2: "cstate ?s = Idle" by simp
  have 3: "list_all (\<lambda>w. waiter_pass w = pass ?s) (queue sys)"
    using inv by (simp add: sys_inv_def)
  let ?d = "foldl (\<lambda>sys' w. resume flt g c (waiter_path w) Compiling (waiter_pass w) sys')
              ?s (queue sys)"
  have "settled flt ?d"
    using drain_settled [OF 1 2 3, of g c] by blast
  then have "sys_inv flt (?d\<lparr>queue := []\<rparr>)"
    by (simp add: sys_inv_def settled_def)
  then show ?thesis
    using WatchingForChanges by (simp add: handleStatus_def)
next
  case Unrecognized
  assume "sys_inv flt sys"
  then show ?thesis using Unrecognized by (simp add: handleStatus_def)
qed

lemma write_inv:
  "sys_inv flt sys \<Longrightarrow>
   sys_inv flt (sys\<lparr>plugin := st, written := (f, pass sys) # written sys\<rparr>)"
  by (simp add: sys_inv_def settled_def)

lemma sys_step_inv:
  "sys_inv flt sys \<Longrightarrow> sys_inv flt (sys_step E P dp rel dn flt g c sys e)"
proof (cases e)
  case (Hook h)
  assume "sys_inv flt sys"
  then show ?thesis using Hook
    by (cases h) (simp_all add: load_inv markCompiling_inv plugin_update_inv write_inv)
next
  case (Status s)
  assume "sys_inv flt sys"
  then show ?thesis using Status by (simp add: handleStatus_inv)
qed

lemma foldl_sys_step_inv:
  "sys_inv flt sys \<Longrightarrow> sys_inv flt (foldl (sys_step E P dp rel dn flt g c) sys es)"
  by (induction es arbitrary: sys) (simp_all add: sys_step_inv)

lemma sys_run_inv: "sys_inv flt (sys_run E P dp rel dn flt g c parsed es)"
  unfolding sys_run_def
  by (rule foldl_sys_step_inv) (simp add: sys_inv_def settled_def)

text \<open>A load of an included path that begins while the coordinator is Compiling resolves
  nothing yet: it joins the queue.\<close>

lemma wait_suspends:
  assumes "flt path" and "cstate sys = Compiling"
  shows "resolved (load flt g c path sys) = resolved sys
    \<and> queue (load flt g c path sys) = queue sys @ [\<lparr> waiter_path = path, waiter_pass = pass sys \<rparr>]
    \<and> plugin (load flt g c path sys) = plugin sys"
  using assms by (simp add: load_def wait_def)

text \<open>
  C4. In every run of hooks, callbacks and compiler statuses, a load of a path that passes
  the filter resolves only while the coordinator is Idle, and in the pass in which it
  began: a request that began while Compiling is resolved when that pass settles, and the
  code it reads from \<^verbatim>\<open>emittedFiles\<close> was written in that pass or an earlier one, never in a
  pass begun after the load.
\<close>

theorem load_resolves_in_its_pass:
  assumes "r \<in> set (resolved (sys_run E P dp rel dn flt g c parsed es))"
    and "flt (res_path r)"
  shows "res_state r = Idle \<and> res_pass r = res_began_pass r
    \<and> (case res_code_pass r of None \<Rightarrow> True | Some k \<Rightarrow> k \<le> res_began_pass r)"
proof -
  have "sys_inv flt (sys_run E P dp rel dn flt g c parsed es)"
    by (rule sys_run_inv)
  then have "list_all (\<lambda>r. \<not> flt (res_path r) \<or> in_its_pass r)
      (resolved (sys_run E P dp rel dn flt g c parsed es))"
    by (simp add: sys_inv_def settled_def)
  with assms have "in_its_pass r" by (auto simp: list_all_iff)
  then show ?thesis by (simp add: in_its_pass_def)
qed

theorem load_resolves_in_its_pass_witness:
  "resolved (sys_run (\<lambda>p. ([], [])) (\<lambda>p b. ([], [])) [''outDir'', ''declarationDir'']
      (\<lambda>a b. b) (\<lambda>p. ''.'') (\<lambda>p. endsWith p ''.ts'') (\<lambda>parsed p. [''out/a.js'']) (map_of [])
      \<lparr> options = \<lparr> sourceMap = None, inlineSources = None, inlineSourceMap = None,
                    composite = None, incremental = None, declaration' = None,
                    declarationMap = None, stringProps = [(''outDir'', ''out'')] \<rparr>,
        fileNames = [''src/a.ts''], autoSetSourceMap = False, configPath = ''tsconfig.json'' \<rparr>
      [Status FileChangeDetected, Hook (WriteFile ''out/a.js'' ''var a = 1;''),
       Status WatchingForChanges,
       Status FileChangeDetected, Hook (Load ''src/a.ts''),
       Hook (WriteFile ''out/a.js'' ''var a = 2;''), Status WatchingForChanges,
       Status FileChangeDetected, Hook (WriteFile ''out/a.js'' ''var a = 3;'')])
     = [\<lparr> res_path = ''src/a.ts'', res_began_state = Compiling, res_began_pass = 2,
          res_state = Idle, res_pass = 2, res_code_pass = Some 2,
          res_result = Some \<lparr> contents = ''var a = 2;'', result_errors = [],
                               result_warnings = [] \<rparr> \<rparr>]
   \<and> endsWith ''src/a.ts'' ''.ts''"
proof -
  let ?run = "sys_run (\<lambda>p. ([], [])) (\<lambda>p b. ([], [])) [''outDir'', ''declarationDir'']
      (\<lambda>a b. b) (\<lambda>p. ''.'') (\<lambda>p. endsWith p ''.ts'') (\<lambda>parsed p. [''out/a.js'']) (map_of [])
      \<lparr> options = \<lparr> sourceMap = None, inlineSources = None, inlineSourceMap = None,
                    composite = None, incremental = None, declaration' = None,
                    declarationMap = None, stringProps = [(''outDir'', ''out'')] \<rparr>,
        fileNames = [''src/a.ts''], autoSetSourceMap = False, configPath = ''tsconfig.json'' \<rparr>
      [Status FileChangeDetected, Hook (WriteFile ''out/a.js'' ''var a = 1;''),
       Status WatchingForChanges,
       Status FileChangeDetected, Hook (Load ''src/a.ts''),
       Hook (WriteFile ''out/a.js'' ''var a = 2;''), Status WatchingForChanges,
       Status FileChangeDetected, Hook (WriteFile ''out/a.js'' ''var a = 3;'')]"
  let ?r = "\<lparr> res_path = ''src/a.ts'', res_began_state = Compiling, res_began_pass = 2,
          res_state = Idle, res_pass = 2, res_code_pass = Some 2,
          res_result = Some \<lparr> contents = ''var a = 2;'', result_errors = [],
                               result_warnings = [] \<rparr> \<rparr>"
  have log: "resolved ?run = [?r]"
    by (simp add: sys_run_def handleStatus_def markCompiling_def load_def wait_def resume_def
        Let_def onLoad_def writeFile_def typescript_def findTypescriptOutput_def codeFile_def
        isCodeOutputFile_def isMapOutputFile_def isDeclarationOutputFile_def endsWith_def
        getEmittedFile_def Map_has_def Map_get_def normalizePath_map)
  have h1: "?r \<in> set (resolved ?run)"
    unfolding log by simp
  have h2: "(\<lambda>p. endsWith p ''.ts'') (res_path ?r)"
    by (simp add: endsWith_def)
  from load_resolves_in_its_pass [OF h1 h2] log h2 show ?thesis by simp
qed

end
